theory Spec2Isabelle
  imports Main "HOL-Library.Sublist"
begin

section \<open>Data of the client\<close>

text \<open>
  The repository holds two variants of one React client. The first source file
  (\<^verbatim>\<open>part_000\<close>) has the profile-picture upload component and an effect that copies the
  result of the current-user query into the cached backend user; the second
  (\<^verbatim>\<open>part_001\<close>) has neither. Both contain the login orchestrator effect and the sign-out
  button.
\<close>

datatype variant = Part_000 | Part_001

text \<open>
  The backend user, with the fields the GraphQL documents select. \<^verbatim>\<open>id\<close> is always
  there; the other text fields may be null.
\<close>

record user =
  user_id :: string
  displayName :: "string option"
  username :: "string option"
  profilePictureUrl :: "string option"
  bio :: "string option"
  createdAt :: string
  updatedAt :: string

text \<open>The browser's \<^verbatim>\<open>File\<close>: name, MIME type and size in bytes.\<close>

record File =
  file_name :: string
  file_type :: string
  file_size :: nat

text \<open>
  A thrown value. Only its \<^verbatim>\<open>message\<close> is ever read; a value without a message is
  modelled by the empty message, which the handlers treat the same way (falsy).
\<close>

datatype error = Error (message: string)

text \<open>An awaited promise either resolves with a value or rejects with a thrown value.\<close>

datatype 'a promise = Resolved 'a | Rejected error

text \<open>The input of the \<^verbatim>\<open>updateUser\<close> mutation: every field optional.\<close>

record update_input =
  in_displayName :: "string option"
  in_username :: "string option"
  in_profilePictureUrl :: "string option"
  in_bio :: "string option"

datatype query = ME_QUERY

text \<open>
  What a handler does to the outside world, in the order in which it does it. Console
  output is recorded by its label only (the emoji that starts some labels is left out).
\<close>

datatype action =
    ConsoleLog string
  | ConsoleError string
  | Alert string
  | GetAccessToken
  | LoginMutation string
  | PrivyLogout
  | LogoutMutation
  | ReadAsDataURL File
  | UploadFileMutation File
  | UpdateUserMutation string update_input "query list"

text \<open>The actions that leave the browser: calls to the identity provider or the backend.\<close>

fun network_call :: "action \<Rightarrow> bool" where
  "network_call GetAccessToken = True"
| "network_call (LoginMutation _) = True"
| "network_call PrivyLogout = True"
| "network_call LogoutMutation = True"
| "network_call (UploadFileMutation _) = True"
| "network_call (UpdateUserMutation _ _ _) = True"
| "network_call _ = False"

text \<open>
  JavaScript truthiness of a \<^verbatim>\<open>string | null | undefined\<close>: null, undefined and the
  empty string are falsy. \<open>or_null x\<close> is the expression \<^verbatim>\<open>x || null\<close>.
\<close>

fun truthy :: "string option \<Rightarrow> bool" where
  "truthy None = False"
| "truthy (Some s) = (s \<noteq> [])"

definition or_null :: "string option \<Rightarrow> string option" where
  "or_null x = (if truthy x then x else None)"

section \<open>Profile picture upload (first variant)\<close>

record upload_props =
  userId :: string
  currentImageUrl :: "string option"

record upload_state =
  uploading :: bool
  previewUrl :: "string option"

text \<open>The two \<^verbatim>\<open>useState\<close> initial values of \<^verbatim>\<open>ProfileImageUpload\<close>.\<close>

definition ProfileImageUpload_init :: "upload_props \<Rightarrow> upload_state" where
  "ProfileImageUpload_init props =
     \<lparr>uploading = False, previewUrl = or_null (currentImageUrl props)\<rparr>"

text \<open>
  What the environment answers during one run of \<^verbatim>\<open>handleFileChange\<close>:
  \<^item> \<open>readerLoadEnd\<close>: \<open>Some r\<close> when the file reader's \<^verbatim>\<open>onloadend\<close> callback runs, with
    \<^verbatim>\<open>reader.result\<close> equal to \<open>r\<close>, while the handler is suspended at an \<^verbatim>\<open>await\<close>;
    \<open>None\<close> when it has not run by the time the handler finishes;
  \<^item> \<open>uploadFile\<close>: the outcome of the upload mutation, resolved to the value of
    \<^verbatim>\<open>uploadResult.data?.uploadFile?.url\<close>;
  \<^item> \<open>uploadCallbacks\<close>: which of the two callbacks given to
    \<^verbatim>\<open>useMutation(UPLOAD_FILE_MUTATION, ...)\<close> the library runs, in order, before the
    awaited upload settles;
  \<^item> \<open>updateUser\<close>: the outcome of the profile-update mutation.
\<close>

datatype hook_callback = OnCompleted | OnError

record upload_env =
  readerLoadEnd :: "string option option"
  uploadFile :: "File \<Rightarrow> string option promise"
  uploadCallbacks :: "File \<Rightarrow> hook_callback list"
  updateUser :: "string \<Rightarrow> update_input \<Rightarrow> unit promise"

text \<open>
  The two callbacks of the upload hook: \<^verbatim>\<open>onCompleted\<close> writes a log line, \<^verbatim>\<open>onError\<close> an
  error line. Neither touches the component state.
\<close>

fun hook_action :: "hook_callback \<Rightarrow> action" where
  "hook_action OnCompleted = ConsoleLog ''File uploaded successfully:''"
| "hook_action OnError = ConsoleError ''Upload error:''"

definition MAX_FILE_SIZE :: nat where
  "MAX_FILE_SIZE = 5 * 1024 * 1024"

definition reader_onloadend :: "string option \<Rightarrow> upload_state \<Rightarrow> upload_state" where
  "reader_onloadend result s = s\<lparr>previewUrl := result\<rparr>"

definition picture_input :: "string \<Rightarrow> update_input" where
  "picture_input imageUrl =
     \<lparr>in_displayName = None, in_username = None,
      in_profilePictureUrl = Some imageUrl, in_bio = None\<rparr>"

text \<open>
  The body of the \<^verbatim>\<open>try\<close> block after \<^verbatim>\<open>setUploading(true)\<close>: the actions it performs and
  whether it ends normally (\<open>Inr\<close>) or by a thrown value (\<open>Inl\<close>). The output of the hook's
  callbacks comes after the upload request and before the handler resumes.
\<close>

definition upload_try :: "upload_props \<Rightarrow> upload_env \<Rightarrow> File \<Rightarrow> (error + unit) \<times> action list" where
  "upload_try props env f =
     (let started = [ReadAsDataURL f,
                     ConsoleLog ''Starting upload with apollo-upload-client...'',
                     UploadFileMutation f] @ map hook_action (uploadCallbacks env f)
      in case uploadFile env f of
           Rejected e \<Rightarrow> (Inl e, started)
         | Resolved url \<Rightarrow>
             (case url of
                None \<Rightarrow>
                  (Inl (Error ''No URL returned from upload''),
                   started @ [ConsoleLog ''Upload result:''])
              | Some imageUrl \<Rightarrow>
                  if imageUrl = [] then
                    (Inl (Error ''No URL returned from upload''),
                     started @ [ConsoleLog ''Upload result:''])
                  else
                    (let updating = started @
                           [ConsoleLog ''Upload result:'',
                            ConsoleLog ''File uploaded, updating user profile with URL:'',
                            UpdateUserMutation (userId props) (picture_input imageUrl) [ME_QUERY]]
                     in case updateUser env (userId props) (picture_input imageUrl) of
                          Rejected e \<Rightarrow> (Inl e, updating)
                        | Resolved _ \<Rightarrow>
                            (Inr (),
                             updating @
                               [ConsoleLog ''Profile image uploaded successfully:'',
                                Alert ''Profile picture updated successfully!'']))))"

text \<open>
  \<^verbatim>\<open>handleFileChange\<close>, from the change event to the end of its \<^verbatim>\<open>finally\<close> block. The
  argument is \<^verbatim>\<open>e.target.files?.[0]\<close>. The size alert interpolates
  \<^verbatim>\<open>MAX_FILE_SIZE / 1024 / 1024\<close>, which is 5.
\<close>

definition handleFileChange ::
  "upload_props \<Rightarrow> upload_env \<Rightarrow> File option \<Rightarrow> upload_state \<Rightarrow> upload_state \<times> action list" where
  "handleFileChange props env selected s =
     (case selected of
        None \<Rightarrow> (s, [])
      | Some f \<Rightarrow>
          if \<not> prefix ''image/'' (file_type f) then
            (s, [ConsoleLog ''Selected file:'', Alert ''Please select an image file''])
          else if file_size f > MAX_FILE_SIZE then
            (s, [ConsoleLog ''Selected file:'', Alert ''File size must be less than 5MB''])
          else
            (let s1 = s\<lparr>uploading := True\<rparr>;
                 s2 = (case readerLoadEnd env of
                         None \<Rightarrow> s1
                       | Some result \<Rightarrow> reader_onloadend result s1)
             in case upload_try props env f of
                  (Inr _, acts) \<Rightarrow>
                    (s2\<lparr>uploading := False\<rparr>, ConsoleLog ''Selected file:'' # acts)
                | (Inl e, acts) \<Rightarrow>
                    (s2\<lparr>previewUrl := or_null (currentImageUrl props), uploading := False\<rparr>,
                     ConsoleLog ''Selected file:'' # acts @
                       [ConsoleError ''Failed to upload profile image:'',
                        ConsoleError ''Error details:'',
                        Alert (''Failed to upload image: '' @
                               (if message e = [] then ''Please try again.'' else message e))])))"

section \<open>Session orchestrator and sign-out (both variants)\<close>

text \<open>
  What the environment answers during one run of \<^verbatim>\<open>handleBackendLogin\<close>: the outcome
  of \<^verbatim>\<open>getAccessToken()\<close> (a string or null) and, for the token sent, the outcome of the
  login mutation resolved to the value of \<^verbatim>\<open>result.data?.login\<close>.
\<close>

record login_env =
  getAccessToken :: "string option promise"
  loginMutation :: "string \<Rightarrow> user option promise"

text \<open>
  \<^verbatim>\<open>handleBackendLogin\<close>, run from its call to its end; its text is the same in both
  source files. The arguments are the \<^verbatim>\<open>authenticated\<close> flag and the cached backend user
  that the effect's closure sees; the result is the cached backend user afterwards and
  the actions performed.
\<close>

definition handleBackendLogin ::
  "login_env \<Rightarrow> bool \<Rightarrow> user option \<Rightarrow> user option \<times> action list" where
  "handleBackendLogin env authenticated backendUser =
     (if authenticated \<and> backendUser = None then
        (case getAccessToken env of
           Rejected e \<Rightarrow>
             (backendUser, [GetAccessToken, ConsoleError ''Backend login failed:''])
         | Resolved accessToken \<Rightarrow>
             (case accessToken of
                None \<Rightarrow> (backendUser, [GetAccessToken])
              | Some tok \<Rightarrow>
                  if tok = [] then (backendUser, [GetAccessToken])
                  else
                    (case loginMutation env tok of
                       Rejected e \<Rightarrow>
                         (backendUser,
                          [GetAccessToken, LoginMutation tok,
                           ConsoleError ''Backend login failed:''])
                     | Resolved login \<Rightarrow>
                         (case login of
                            None \<Rightarrow>
                              (backendUser,
                               [GetAccessToken, LoginMutation tok, ConsoleLog ''result''])
                          | Some u \<Rightarrow>
                              (Some u,
                               [GetAccessToken, LoginMutation tok, ConsoleLog ''result'',
                                ConsoleLog ''Backend login successful:''])))))
      else (backendUser, []))"






fun login_token :: "action \<Rightarrow> string option" where
  "login_token (LoginMutation tok) = Some tok"
| "login_token _ = None"

definition login_requests :: "action list \<Rightarrow> string list" where
  "login_requests acts = List.map_filter login_token acts"

text \<open>The \<^verbatim>\<open>skip\<close> option of the current-user query.\<close>

fun meQuery_skip :: "variant \<Rightarrow> user option \<Rightarrow> bool" where
  "meQuery_skip Part_000 backendUser = (backendUser = None)"
| "meQuery_skip Part_001 backendUser = (backendUser = None)"

text \<open>
  The second effect of the first variant, with \<^verbatim>\<open>meData?.me\<close> as its argument. The
  second variant binds \<^verbatim>\<open>meData\<close> and never reads it, so new query data changes nothing
  there.
\<close>

definition syncMeData :: "user option \<Rightarrow> user option \<Rightarrow> user option" where
  "syncMeData me backendUser = (case me of Some u \<Rightarrow> Some u | None \<Rightarrow> backendUser)"

fun meData_effect :: "variant \<Rightarrow> user option \<Rightarrow> user option \<Rightarrow> user option" where
  "meData_effect Part_000 me backendUser = syncMeData me backendUser"
| "meData_effect Part_001 me backendUser = backendUser"

text \<open>
  What the environment answers during sign-out: the outcome of the provider's
  \<^verbatim>\<open>logout()\<close> and of the backend logout mutation (resolved to \<^verbatim>\<open>result.data?.logout\<close>).
\<close>

record logout_env =
  logout :: "unit promise"
  logoutMutation :: "bool option promise"

text \<open>The click handler of the Sign Out button, one equation per source file.\<close>

fun signOut :: "variant \<Rightarrow> logout_env \<Rightarrow> user option \<Rightarrow> user option \<times> action list" where
  "signOut Part_000 env backendUser =
     (case logout env of
        Rejected e \<Rightarrow> (backendUser, [PrivyLogout, ConsoleError ''Logout failed:''])
      | Resolved _ \<Rightarrow>
          (case logoutMutation env of
             Rejected e \<Rightarrow>
               (backendUser,
                [PrivyLogout, ConsoleLog ''Privy logout successful'', LogoutMutation,
                 ConsoleError ''Logout failed:''])
           | Resolved _ \<Rightarrow>
               (None,
                [PrivyLogout, ConsoleLog ''Privy logout successful'', LogoutMutation,
                 ConsoleLog ''Backend logout successful:''])))"
| "signOut Part_001 env backendUser =
     (case logout env of
        Rejected e \<Rightarrow> (backendUser, [PrivyLogout, ConsoleError ''Logout failed:''])
      | Resolved _ \<Rightarrow>
          (case logoutMutation env of
             Rejected e \<Rightarrow>
               (backendUser,
                [PrivyLogout, ConsoleLog ''Privy logout successful'', LogoutMutation,
                 ConsoleError ''Logout failed:''])
           | Resolved _ \<Rightarrow>
               (None,
                [PrivyLogout, ConsoleLog ''Privy logout successful'', LogoutMutation,
                 ConsoleLog ''Backend logout successful:''])))"

fun logout_call :: "action \<Rightarrow> bool" where
  "logout_call PrivyLogout = True"
| "logout_call LogoutMutation = True"
| "logout_call _ = False"




text \<open>The props the profile panel passes to \<^verbatim>\<open>ProfileImageUpload\<close>.\<close>

definition upload_props_of :: "user \<Rightarrow> upload_props" where
  "upload_props_of u = \<lparr>userId = user_id u, currentImageUrl = profilePictureUrl u\<rparr>"

fun update_request :: "action \<Rightarrow> bool" where
  "update_request (UpdateUserMutation _ _ _) = True"
| "update_request _ = False"

section \<open>Sample inputs\<close>

text \<open>Concrete users, files and environment answers, used to run the handlers.\<close>

definition ann :: user where
  "ann = \<lparr>user_id = ''u1'', displayName = Some ''Ann'', username = None,
           profilePictureUrl = None, bio = None,
           createdAt = ''2025-01-01T00:00:00Z'', updatedAt = ''2025-01-01T00:00:00Z''\<rparr>"

definition ann_with_picture :: user where
  "ann_with_picture = ann\<lparr>profilePictureUrl := Some ''https://x/y.png''\<rparr>"

definition jpeg_10mb :: File where
  "jpeg_10mb = \<lparr>file_name = ''big.jpg'', file_type = ''image/jpeg'', file_size = 10485760\<rparr>"

definition jpeg_2mb :: File where
  "jpeg_2mb = \<lparr>file_name = ''small.jpg'', file_type = ''image/jpeg'', file_size = 2097152\<rparr>"

definition pdf_1kb :: File where
  "pdf_1kb = \<lparr>file_name = ''cv.pdf'', file_type = ''application/pdf'', file_size = 1024\<rparr>"

definition upload_ok :: upload_env where
  "upload_ok = \<lparr>readerLoadEnd = Some (Some ''data:image/jpeg;base64,AAAA''),
                 uploadFile = (\<lambda>f. Resolved (Some ''https://x/y.png'')),
                 uploadCallbacks = (\<lambda>f. [OnCompleted]),
                 updateUser = (\<lambda>i inp. Resolved ())\<rparr>"

definition upload_rejected :: upload_env where
  "upload_rejected = \<lparr>readerLoadEnd = Some (Some ''data:image/jpeg;base64,BBBB''),
                       uploadFile = (\<lambda>f. Rejected (Error ''Failed to fetch'')),
                       uploadCallbacks = (\<lambda>f. [OnError]),
                       updateUser = (\<lambda>i inp. Resolved ())\<rparr>"

definition upload_no_url :: upload_env where
  "upload_no_url = \<lparr>readerLoadEnd = Some (Some ''data:image/jpeg;base64,AAAA''),
                     uploadFile = (\<lambda>f. Resolved None),
                     uploadCallbacks = (\<lambda>f. [OnCompleted]),
                     updateUser = (\<lambda>i inp. Resolved ())\<rparr>"

definition login_ok :: login_env where
  "login_ok = \<lparr>getAccessToken = Resolved (Some ''tok_abc''),
                loginMutation = (\<lambda>tok. Resolved (Some ann))\<rparr>"

definition login_rejected :: login_env where
  "login_rejected = \<lparr>getAccessToken = Resolved (Some ''tok_abc''),
                      loginMutation = (\<lambda>tok. Rejected (Error ''Unauthorized''))\<rparr>"

definition login_empty_token :: login_env where
  "login_empty_token = \<lparr>getAccessToken = Resolved (Some []),
                         loginMutation = (\<lambda>tok. Resolved (Some ann))\<rparr>"

definition login_no_token :: login_env where
  "login_no_token = \<lparr>getAccessToken = Resolved None,
                      loginMutation = (\<lambda>tok. Resolved (Some ann))\<rparr>"



text \<open>The upload component after mount and one successful upload of a picture.\<close>

definition after_first_upload :: upload_state where
  "after_first_upload =
     fst (handleFileChange (upload_props_of ann) upload_ok (Some jpeg_2mb)
            (ProfileImageUpload_init (upload_props_of ann)))"

text \<open>Props whose picture URL is the empty string.\<close>

definition props_empty_picture :: upload_props where
  "props_empty_picture = \<lparr>userId = ''u1'', currentImageUrl = Some []\<rparr>"

definition logout_ok :: logout_env where
  "logout_ok = \<lparr>logout = Resolved (), logoutMutation = Resolved (Some True)\<rparr>"


section \<open>Validation before upload\<close>

lemma MAX_FILE_SIZE_bytes: "MAX_FILE_SIZE = 5242880"
  by (simp add: MAX_FILE_SIZE_def)

text \<open>
  C8. A selected file of more than 5,242,880 bytes is turned away whatever its MIME
  type: the handler shows one alert (the size alert for an image, the type alert
  otherwise) and returns, with the component state untouched and no call to the provider
  or the backend.
\<close>

theorem oversized_file_rejected:
  assumes "file_size f > 5242880"
  shows "handleFileChange props env (Some f) s =
           (s, [ConsoleLog ''Selected file:'',
                Alert (if prefix ''image/'' (file_type f)
                       then ''File size must be less than 5MB''
                       else ''Please select an image file'')])
       \<and> filter network_call (snd (handleFileChange props env (Some f) s)) = []"
  using assms by (simp add: handleFileChange_def MAX_FILE_SIZE_bytes)

theorem oversized_file_rejected_witness:
  "file_size jpeg_10mb > 5242880
   \<and> handleFileChange (upload_props_of ann) upload_ok (Some jpeg_10mb)
         (ProfileImageUpload_init (upload_props_of ann)) =
       (ProfileImageUpload_init (upload_props_of ann),
        [ConsoleLog ''Selected file:'', Alert ''File size must be less than 5MB''])"
proof -
  have big: "file_size jpeg_10mb > 5242880"
    by (simp add: jpeg_10mb_def)
  have image: "prefix ''image/'' (file_type jpeg_10mb)"
    by (simp add: jpeg_10mb_def)
  from oversized_file_rejected [OF big] big image show ?thesis
    by simp
qed

text \<open>
  C9. A selected file whose MIME type does not begin with \<open>image/\<close> is turned away:
  the handler shows the alert and returns, with the state untouched and no call to the
  provider or the backend.
\<close>

theorem non_image_file_rejected:
  assumes "\<not> prefix ''image/'' (file_type f)"
  shows "handleFileChange props env (Some f) s =
           (s, [ConsoleLog ''Selected file:'', Alert ''Please select an image file''])
       \<and> filter network_call (snd (handleFileChange props env (Some f) s)) = []"
  using assms by (simp add: handleFileChange_def)

theorem non_image_file_rejected_witness:
  "\<not> prefix ''image/'' (file_type pdf_1kb)
   \<and> handleFileChange (upload_props_of ann) upload_ok (Some pdf_1kb)
         (ProfileImageUpload_init (upload_props_of ann)) =
       (ProfileImageUpload_init (upload_props_of ann),
        [ConsoleLog ''Selected file:'', Alert ''Please select an image file''])"
proof -
  have not_image: "\<not> prefix ''image/'' (file_type pdf_1kb)"
    by (simp add: pdf_1kb_def)
  from non_image_file_rejected [OF not_image] not_image show ?thesis
    by blast
qed

section \<open>The upload attempt\<close>

text \<open>A file passes validation when neither of the two guards fires.\<close>

lemma handleFileChange_valid:
  assumes "prefix ''image/'' (file_type f)" and "file_size f \<le> MAX_FILE_SIZE"
  shows "handleFileChange props env (Some f) s =
     (let s1 = s\<lparr>uploading := True\<rparr>;
          s2 = (case readerLoadEnd env of None \<Rightarrow> s1 | Some result \<Rightarrow> reader_onloadend result s1)
      in case upload_try props env f of
           (Inr _, acts) \<Rightarrow> (s2\<lparr>uploading := False\<rparr>, ConsoleLog ''Selected file:'' # acts)
         | (Inl e, acts) \<Rightarrow>
             (s2\<lparr>previewUrl := or_null (currentImageUrl props), uploading := False\<rparr>,
              ConsoleLog ''Selected file:'' # acts @
                [ConsoleError ''Failed to upload profile image:'',
                 ConsoleError ''Error details:'',
                 Alert (''Failed to upload image: '' @
                        (if message e = [] then ''Please try again.'' else message e))]))"
  using assms by (simp add: handleFileChange_def)

text \<open>The hook's callbacks only write to the console.\<close>

lemma hook_action_not_network: "filter network_call (map hook_action cbs) = []"
proof (induction cbs)
  case Nil
  show ?case by simp
next
  case (Cons cb cbs)
  then show ?case by (cases cb) simp_all
qed

lemma hook_action_not_update: "filter update_request (map hook_action cbs) = []"
proof (induction cbs)
  case Nil
  show ?case by simp
next
  case (Cons cb cbs)
  then show ?case by (cases cb) simp_all
qed

lemma upload_try_url:
  assumes "uploadFile env f = Resolved (Some url)" and "url \<noteq> []"
  shows "filter network_call (snd (upload_try props env f)) =
           [UploadFileMutation f,
            UpdateUserMutation (userId props) (picture_input url) [ME_QUERY]]"
  using assms
  by (simp add: upload_try_def Let_def hook_action_not_network split: promise.split)

lemma upload_try_no_url:
  assumes "uploadFile env f = Resolved url" and "\<not> truthy url"
  shows "upload_try props env f =
           (Inl (Error ''No URL returned from upload''),
            [ReadAsDataURL f, ConsoleLog ''Starting upload with apollo-upload-client...'',
             UploadFileMutation f] @ map hook_action (uploadCallbacks env f) @
            [ConsoleLog ''Upload result:''])"
  using assms by (cases url) (simp_all add: upload_try_def)

lemma preview_after_throw:
  assumes "prefix ''image/'' (file_type f)" and "file_size f \<le> MAX_FILE_SIZE"
    and "fst (upload_try props env f) = Inl e"
  shows "previewUrl (fst (handleFileChange props env (Some f) s)) = or_null (currentImageUrl props)"
  using assms
  by (cases "upload_try props env f") (simp add: handleFileChange_valid Let_def)

lemma upload_try_throws:
  assumes "(\<exists>e. uploadFile env f = Rejected e)
         \<or> (\<exists>url. uploadFile env f = Resolved url \<and> \<not> truthy url)
         \<or> (\<exists>url e. uploadFile env f = Resolved (Some url) \<and> url \<noteq> []
                \<and> updateUser env (userId props) (picture_input url) = Rejected e)"
  shows "\<exists>e. fst (upload_try props env f) = Inl e"
  using assms
proof (elim disjE exE conjE)
  fix e assume "uploadFile env f = Rejected e"
  then show ?thesis by (simp add: upload_try_def)
next
  fix url assume "uploadFile env f = Resolved url" and "\<not> truthy url"
  then show ?thesis by (simp add: upload_try_no_url)
next
  fix url e
  assume "uploadFile env f = Resolved (Some url)" and "url \<noteq> []"
    and "updateUser env (userId props) (picture_input url) = Rejected e"
  then show ?thesis by (simp add: upload_try_def)
qed

text \<open>
  C7. When the upload of a validated file resolves with a (non-empty) URL, the calls
  that leave the browser are exactly the upload followed by one profile update: its
  picture-URL field is that very string, its other fields are absent, and it asks for a
  refetch of the current-user query.
\<close>

theorem upload_url_flows_to_update:
  assumes "prefix ''image/'' (file_type f)" and "file_size f \<le> 5242880"
    and "uploadFile env f = Resolved (Some url)" and "url \<noteq> []"
  shows "filter network_call (snd (handleFileChange props env (Some f) s)) =
           [UploadFileMutation f,
            UpdateUserMutation (userId props)
              \<lparr>in_displayName = None, in_username = None,
               in_profilePictureUrl = Some url, in_bio = None\<rparr>
              [ME_QUERY]]"
proof -
  from assms(2) have size_ok: "file_size f \<le> MAX_FILE_SIZE"
    by (simp add: MAX_FILE_SIZE_bytes)
  have calls: "filter network_call (snd (upload_try props env f)) =
      [UploadFileMutation f, UpdateUserMutation (userId props) (picture_input url) [ME_QUERY]]"
    using assms(3,4) by (rule upload_try_url)
  show ?thesis
  proof (cases "upload_try props env f")
    case (Pair outcome acts)
    with calls have "filter network_call acts =
        [UploadFileMutation f, UpdateUserMutation (userId props) (picture_input url) [ME_QUERY]]"
      by simp
    with Pair show ?thesis
      by (cases outcome)
        (simp_all add: handleFileChange_valid [OF assms(1) size_ok] Let_def picture_input_def)
  qed
qed

theorem upload_url_flows_to_update_witness:
  "prefix ''image/'' (file_type jpeg_2mb) \<and> file_size jpeg_2mb \<le> 5242880
   \<and> uploadFile upload_ok jpeg_2mb = Resolved (Some ''https://x/y.png'')
   \<and> filter network_call
         (snd (handleFileChange (upload_props_of ann) upload_ok (Some jpeg_2mb)
                 (ProfileImageUpload_init (upload_props_of ann)))) =
       [UploadFileMutation jpeg_2mb,
        UpdateUserMutation ''u1''
          \<lparr>in_displayName = None, in_username = None,
           in_profilePictureUrl = Some ''https://x/y.png'', in_bio = None\<rparr>
          [ME_QUERY]]"
proof -
  have image: "prefix ''image/'' (file_type jpeg_2mb)"
    and small: "file_size jpeg_2mb \<le> 5242880"
    by (simp_all add: jpeg_2mb_def)
  have url: "uploadFile upload_ok jpeg_2mb = Resolved (Some ''https://x/y.png'')"
    by (simp add: upload_ok_def)
  have id: "userId (upload_props_of ann) = ''u1''"
    by (simp add: upload_props_of_def ann_def)
  from upload_url_flows_to_update [OF image small url, of "upload_props_of ann"] image small url id
  show ?thesis
    by simp
qed

text \<open>
  C10 (amended). When the upload of a validated file resolves without a non-empty URL,
  the attempt counts as failed: the \<^verbatim>\<open>try\<close> block throws the error "No URL returned from
  upload", the handler logs it, shows the failure alert with that message, sets the
  preview to \<^verbatim>\<open>currentImageUrl || null\<close> (the prop, absent when null or empty), clears the
  uploading flag and sends no profile update.
\<close>

theorem upload_without_url_fails:
  assumes "prefix ''image/'' (file_type f)" and "file_size f \<le> 5242880"
    and "uploadFile env f = Resolved url" and "\<not> truthy url"
  shows "fst (upload_try props env f) = Inl (Error ''No URL returned from upload'')
       \<and> snd (handleFileChange props env (Some f) s) =
           [ConsoleLog ''Selected file:'', ReadAsDataURL f,
            ConsoleLog ''Starting upload with apollo-upload-client...'',
            UploadFileMutation f] @ map hook_action (uploadCallbacks env f) @
           [ConsoleLog ''Upload result:'',
            ConsoleError ''Failed to upload profile image:'',
            ConsoleError ''Error details:'',
            Alert ''Failed to upload image: No URL returned from upload'']
       \<and> filter update_request (snd (handleFileChange props env (Some f) s)) = []
       \<and> previewUrl (fst (handleFileChange props env (Some f) s)) =
           (if truthy (currentImageUrl props) then currentImageUrl props else None)
       \<and> uploading (fst (handleFileChange props env (Some f) s)) = False"
proof -
  from assms(2) have size_ok: "file_size f \<le> MAX_FILE_SIZE"
    by (simp add: MAX_FILE_SIZE_bytes)
  note thrown = upload_try_no_url [OF assms(3,4), of props]
  show ?thesis
    by (simp add: handleFileChange_valid [OF assms(1) size_ok] thrown Let_def
        hook_action_not_update or_null_def)
qed

theorem upload_without_url_fails_witness:
  "prefix ''image/'' (file_type jpeg_2mb) \<and> file_size jpeg_2mb \<le> 5242880
   \<and> uploadFile upload_no_url jpeg_2mb = Resolved None \<and> \<not> truthy None
   \<and> snd (handleFileChange (upload_props_of ann_with_picture) upload_no_url (Some jpeg_2mb)
            after_first_upload) =
       [ConsoleLog ''Selected file:'', ReadAsDataURL jpeg_2mb,
        ConsoleLog ''Starting upload with apollo-upload-client...'',
        UploadFileMutation jpeg_2mb, ConsoleLog ''File uploaded successfully:'',
        ConsoleLog ''Upload result:'',
        ConsoleError ''Failed to upload profile image:'',
        ConsoleError ''Error details:'',
        Alert ''Failed to upload image: No URL returned from upload'']
   \<and> previewUrl
         (fst (handleFileChange (upload_props_of ann_with_picture) upload_no_url
                 (Some jpeg_2mb) after_first_upload)) = Some ''https://x/y.png''
   \<and> previewUrl
         (fst (handleFileChange props_empty_picture upload_no_url
                 (Some jpeg_2mb) after_first_upload)) = None
   \<and> previewUrl
         (fst (handleFileChange (upload_props_of ann) upload_no_url (Some jpeg_2mb)
                 (ProfileImageUpload_init (upload_props_of ann)))) = None"
proof -
  have image: "prefix ''image/'' (file_type jpeg_2mb)"
    and small: "file_size jpeg_2mb \<le> 5242880"
    by (simp_all add: jpeg_2mb_def)
  have no_url: "uploadFile upload_no_url jpeg_2mb = Resolved None"
    by (simp add: upload_no_url_def)
  have falsy: "\<not> truthy None"
    by simp
  have completed: "map hook_action (uploadCallbacks upload_no_url jpeg_2mb) =
      [ConsoleLog ''File uploaded successfully:'']"
    by (simp add: upload_no_url_def)
  have picture: "currentImageUrl (upload_props_of ann_with_picture) = Some ''https://x/y.png''"
    by (simp add: upload_props_of_def ann_with_picture_def ann_def)
  have empty: "currentImageUrl props_empty_picture = Some []"
    by (simp add: props_empty_picture_def)
  have absent: "currentImageUrl (upload_props_of ann) = None"
    by (simp add: upload_props_of_def ann_def)
  from upload_without_url_fails [OF image small no_url falsy,
      of "upload_props_of ann_with_picture" after_first_upload] completed picture
  have with_picture:
    "snd (handleFileChange (upload_props_of ann_with_picture) upload_no_url (Some jpeg_2mb)
            after_first_upload) =
       [ConsoleLog ''Selected file:'', ReadAsDataURL jpeg_2mb,
        ConsoleLog ''Starting upload with apollo-upload-client...'',
        UploadFileMutation jpeg_2mb, ConsoleLog ''File uploaded successfully:'',
        ConsoleLog ''Upload result:'',
        ConsoleError ''Failed to upload profile image:'',
        ConsoleError ''Error details:'',
        Alert ''Failed to upload image: No URL returned from upload'']
     \<and> previewUrl
         (fst (handleFileChange (upload_props_of ann_with_picture) upload_no_url
                 (Some jpeg_2mb) after_first_upload)) = Some ''https://x/y.png''"
    by simp
  from upload_without_url_fails [OF image small no_url falsy,
      of props_empty_picture after_first_upload] empty
  have with_empty:
    "previewUrl
         (fst (handleFileChange props_empty_picture upload_no_url
                 (Some jpeg_2mb) after_first_upload)) = None"
    by simp
  from upload_without_url_fails [OF image small no_url falsy,
      of "upload_props_of ann" "ProfileImageUpload_init (upload_props_of ann)"] absent
  have mounted:
    "previewUrl
         (fst (handleFileChange (upload_props_of ann) upload_no_url (Some jpeg_2mb)
                 (ProfileImageUpload_init (upload_props_of ann)))) = None"
    by simp
  from image small no_url falsy with_picture with_empty mounted show ?thesis
    by blast
qed

text \<open>
  The claim as written promises a revert. After one successful upload the preview is
  the file reader's data URL; an upload that then resolves without a URL leaves the
  server's URL in the preview, not the data URL shown before the attempt.
\<close>

theorem upload_without_url_counterexample:
  "uploadFile upload_no_url jpeg_2mb = Resolved None
   \<and> previewUrl after_first_upload = Some ''data:image/jpeg;base64,AAAA''
   \<and> previewUrl
         (fst (handleFileChange (upload_props_of ann_with_picture) upload_no_url
                 (Some jpeg_2mb) after_first_upload)) = Some ''https://x/y.png''
   \<and> previewUrl
         (fst (handleFileChange (upload_props_of ann_with_picture) upload_no_url
                 (Some jpeg_2mb) after_first_upload)) \<noteq> previewUrl after_first_upload"
  by (simp add: after_first_upload_def handleFileChange_def upload_try_def Let_def
      MAX_FILE_SIZE_def reader_onloadend_def or_null_def upload_props_of_def
      ProfileImageUpload_init_def ann_with_picture_def ann_def jpeg_2mb_def
      upload_ok_def upload_no_url_def)

text \<open>
  C6 (amended). When an upload attempt fails after validation (the upload is rejected,
  it resolves without a non-empty URL, or the profile update is rejected), the handler
  sets the preview to \<^verbatim>\<open>currentImageUrl || null\<close>, the value of the prop it was rendered
  with, not to the preview shown before the attempt. The two agree for an attempt made
  from the mounted state, where the preview still holds its initial value (none when
  the prop is absent).
\<close>

theorem failed_upload_resets_preview_to_prop:
  assumes "prefix ''image/'' (file_type f)" and "file_size f \<le> 5242880"
    and "(\<exists>e. uploadFile env f = Rejected e)
       \<or> (\<exists>url. uploadFile env f = Resolved url \<and> \<not> truthy url)
       \<or> (\<exists>url e. uploadFile env f = Resolved (Some url) \<and> url \<noteq> []
              \<and> updateUser env (userId props) (picture_input url) = Rejected e)"
  shows "previewUrl (fst (handleFileChange props env (Some f) s)) =
           or_null (currentImageUrl props)
       \<and> previewUrl (fst (handleFileChange props env (Some f) (ProfileImageUpload_init props))) =
           previewUrl (ProfileImageUpload_init props)"
proof -
  from assms(2) have size_ok: "file_size f \<le> MAX_FILE_SIZE"
    by (simp add: MAX_FILE_SIZE_bytes)
  from assms(3) obtain e where "fst (upload_try props env f) = Inl e"
    using upload_try_throws by blast
  then have "previewUrl (fst (handleFileChange props env (Some f) s')) =
      or_null (currentImageUrl props)" for s'
    using assms(1) size_ok by (simp add: preview_after_throw)
  then show ?thesis
    by (simp add: ProfileImageUpload_init_def)
qed

theorem failed_upload_resets_preview_to_prop_witness:
  "prefix ''image/'' (file_type jpeg_2mb) \<and> file_size jpeg_2mb \<le> 5242880
   \<and> uploadFile upload_rejected jpeg_2mb = Rejected (Error ''Failed to fetch'')
   \<and> previewUrl (ProfileImageUpload_init (upload_props_of ann)) = None
   \<and> previewUrl
         (fst (handleFileChange (upload_props_of ann) upload_rejected (Some jpeg_2mb)
                 (ProfileImageUpload_init (upload_props_of ann)))) = None"
proof -
  have image: "prefix ''image/'' (file_type jpeg_2mb)"
    and small: "file_size jpeg_2mb \<le> 5242880"
    by (simp_all add: jpeg_2mb_def)
  have rejected: "uploadFile upload_rejected jpeg_2mb = Rejected (Error ''Failed to fetch'')"
    by (simp add: upload_rejected_def)
  then have failed:
    "(\<exists>e. uploadFile upload_rejected jpeg_2mb = Rejected e)
     \<or> (\<exists>url. uploadFile upload_rejected jpeg_2mb = Resolved url \<and> \<not> truthy url)
     \<or> (\<exists>url e. uploadFile upload_rejected jpeg_2mb = Resolved (Some url) \<and> url \<noteq> []
            \<and> updateUser upload_rejected (userId (upload_props_of ann)) (picture_input url) =
                Rejected e)"
    by blast
  have mounted: "previewUrl (ProfileImageUpload_init (upload_props_of ann)) = None"
    by (simp add: ProfileImageUpload_init_def upload_props_of_def ann_def or_null_def)
  from failed_upload_resets_preview_to_prop [OF image small failed]
  have "previewUrl
      (fst (handleFileChange (upload_props_of ann) upload_rejected (Some jpeg_2mb)
              (ProfileImageUpload_init (upload_props_of ann)))) =
      previewUrl (ProfileImageUpload_init (upload_props_of ann))"
    by blast
  with image small rejected mounted show ?thesis
    by simp
qed

text \<open>
  The claim as written fails once the preview no longer equals the prop: after one
  successful upload the preview is the data URL the file reader produced; a second
  attempt that fails puts the server's URL there instead.
\<close>

theorem failed_upload_preview_counterexample:
  "previewUrl after_first_upload = Some ''data:image/jpeg;base64,AAAA''
   \<and> previewUrl
         (fst (handleFileChange (upload_props_of ann_with_picture) upload_rejected
                 (Some jpeg_2mb) after_first_upload)) = Some ''https://x/y.png''
   \<and> previewUrl
         (fst (handleFileChange (upload_props_of ann_with_picture) upload_rejected
                 (Some jpeg_2mb) after_first_upload)) \<noteq> previewUrl after_first_upload"
  by (simp add: after_first_upload_def handleFileChange_def upload_try_def Let_def
      MAX_FILE_SIZE_def reader_onloadend_def or_null_def upload_props_of_def
      ProfileImageUpload_init_def ann_with_picture_def ann_def jpeg_2mb_def
      upload_ok_def upload_rejected_def)

section \<open>Sign-out\<close>

lemma signOut_variant:
  "signOut v env backendUser =
     (case logout env of
        Rejected e \<Rightarrow> (backendUser, [PrivyLogout, ConsoleError ''Logout failed:''])
      | Resolved _ \<Rightarrow>
          (case logoutMutation env of
             Rejected e \<Rightarrow>
               (backendUser,
                [PrivyLogout, ConsoleLog ''Privy logout successful'', LogoutMutation,
                 ConsoleError ''Logout failed:''])
           | Resolved _ \<Rightarrow>
               (None,
                [PrivyLogout, ConsoleLog ''Privy logout successful'', LogoutMutation,
                 ConsoleLog ''Backend logout successful:''])))"
  by (cases v) simp_all

text \<open>
  C1 (amended). The two client variants agree on the logout ordering: for every outcome
  of the two calls and every cached user, the sign-out handlers of the two source files
  perform the same actions in the same order and leave the same cached user.
\<close>

theorem signOut_same_in_both_variants:
  "signOut Part_000 env backendUser = signOut Part_001 env backendUser"
  by (simp only: signOut_variant)

text \<open>
  With both calls succeeding, each variant calls the provider's logout and then the
  backend's: neither has the backend call first.
\<close>

theorem signOut_order_counterexample:
  "filter logout_call (snd (signOut Part_000 logout_ok (Some ann))) =
     [PrivyLogout, LogoutMutation]
   \<and> filter logout_call (snd (signOut Part_001 logout_ok (Some ann))) =
     [PrivyLogout, LogoutMutation]"
  by (simp add: logout_ok_def)




section \<open>Session orchestrator\<close>

lemma login_requests_simps [simp]:
  "login_requests [] = []"
  "login_requests (LoginMutation tok # acts) = tok # login_requests acts"
  "login_requests (GetAccessToken # acts) = login_requests acts"
  "login_requests (ConsoleLog l # acts) = login_requests acts"
  "login_requests (ConsoleError l # acts) = login_requests acts"
  by (simp_all add: login_requests_def map_filter_simps)


text \<open>The requests of one run, by cases on what the provider answers.\<close>

lemma handleBackendLogin_requests:
  "login_requests (snd (handleBackendLogin env authenticated backendUser)) =
     (if authenticated \<and> backendUser = None then
        (case getAccessToken env of
           Resolved (Some tok) \<Rightarrow> if tok = [] then [] else [tok]
         | _ \<Rightarrow> [])
      else [])"
  by (simp add: handleBackendLogin_def split: promise.split option.split)

lemma handleBackendLogin_falsy_token:
  assumes "getAccessToken env = Resolved tok" and "\<not> truthy tok"
  shows "handleBackendLogin env True None = (None, [GetAccessToken])"
  using assms by (cases tok) (simp_all add: handleBackendLogin_def)





text \<open>
  C3 (amended). For a run of the orchestrator with the provider-authenticated flag true
  and no cached backend user: if the retrieved access token is null or the empty string,
  nothing further happens (no request, state unchanged); otherwise one login exchange
  carrying exactly that token is issued; if it resolves with a user record, that record
  is cached; if it is rejected, the error is logged and that is all (no second request,
  no alert, the cached backend user still null).
\<close>

theorem handleBackendLogin_outcomes:
  "(getAccessToken env = Resolved tok \<and> \<not> truthy tok \<longrightarrow>
      handleBackendLogin env True None = (None, [GetAccessToken]))
   \<and> (getAccessToken env = Resolved (Some t) \<and> t \<noteq> [] \<longrightarrow>
      login_requests (snd (handleBackendLogin env True None)) = [t])
   \<and> (getAccessToken env = Resolved (Some t) \<and> t \<noteq> [] \<and> loginMutation env t = Resolved (Some u) \<longrightarrow>
      fst (handleBackendLogin env True None) = Some u)
   \<and> (getAccessToken env = Resolved (Some t) \<and> t \<noteq> [] \<and> loginMutation env t = Rejected e \<longrightarrow>
      handleBackendLogin env True None =
        (None, [GetAccessToken, LoginMutation t, ConsoleError ''Backend login failed:'']))"
proof (intro conjI impI)
  assume "getAccessToken env = Resolved tok \<and> \<not> truthy tok"
  then show "handleBackendLogin env True None = (None, [GetAccessToken])"
    by (simp add: handleBackendLogin_falsy_token)
next
  assume "getAccessToken env = Resolved (Some t) \<and> t \<noteq> []"
  then show "login_requests (snd (handleBackendLogin env True None)) = [t]"
    by (simp add: handleBackendLogin_requests)
next
  assume "getAccessToken env = Resolved (Some t) \<and> t \<noteq> []
    \<and> loginMutation env t = Resolved (Some u)"
  then show "fst (handleBackendLogin env True None) = Some u"
    by (simp add: handleBackendLogin_def)
next
  assume "getAccessToken env = Resolved (Some t) \<and> t \<noteq> [] \<and> loginMutation env t = Rejected e"
  then show "handleBackendLogin env True None =
      (None, [GetAccessToken, LoginMutation t, ConsoleError ''Backend login failed:''])"
    by (simp add: handleBackendLogin_def)
qed

theorem handleBackendLogin_outcomes_witness:
  "handleBackendLogin login_no_token True None = (None, [GetAccessToken])
   \<and> login_requests (snd (handleBackendLogin login_ok True None)) = [''tok_abc'']
   \<and> fst (handleBackendLogin login_ok True None) = Some ann
   \<and> handleBackendLogin login_rejected True None =
       (None, [GetAccessToken, LoginMutation ''tok_abc'',
               ConsoleError ''Backend login failed:''])"
proof -
  have null: "getAccessToken login_no_token = Resolved None \<and> \<not> truthy None"
    by (simp add: login_no_token_def)
  have ok: "getAccessToken login_ok = Resolved (Some ''tok_abc'') \<and> ''tok_abc'' \<noteq> []
      \<and> loginMutation login_ok ''tok_abc'' = Resolved (Some ann)"
    by (simp add: login_ok_def)
  have rejected: "getAccessToken login_rejected = Resolved (Some ''tok_abc'') \<and> ''tok_abc'' \<noteq> []
      \<and> loginMutation login_rejected ''tok_abc'' = Rejected (Error ''Unauthorized'')"
    by (simp add: login_rejected_def)
  from handleBackendLogin_outcomes [of login_no_token None] null
  have a: "handleBackendLogin login_no_token True None = (None, [GetAccessToken])"
    by blast
  from handleBackendLogin_outcomes [of login_ok _ "''tok_abc''" ann] ok
  have b: "login_requests (snd (handleBackendLogin login_ok True None)) = [''tok_abc'']
      \<and> fst (handleBackendLogin login_ok True None) = Some ann"
    by blast
  from handleBackendLogin_outcomes [of login_rejected _ "''tok_abc''" _ "Error ''Unauthorized''"]
    rejected
  have c: "handleBackendLogin login_rejected True None =
      (None, [GetAccessToken, LoginMutation ''tok_abc'', ConsoleError ''Backend login failed:''])"
    by blast
  from a b c show ?thesis
    by blast
qed

text \<open>
  The claim as written fails for the empty string: it is not null, yet the handler's
  truthiness test treats it like null and no login exchange is issued.
\<close>

theorem handleBackendLogin_empty_token_counterexample:
  "getAccessToken login_empty_token = Resolved (Some [])
   \<and> login_requests (snd (handleBackendLogin login_empty_token True None)) = []
   \<and> login_requests (snd (handleBackendLogin login_empty_token True None)) \<noteq> [[]]"
  by (simp add: login_empty_token_def handleBackendLogin_def)

section \<open>The current-user query\<close>

text \<open>
  C4 (amended). In both client variants the current-user query is skipped exactly when
  no backend user is cached, so a login exchange that returns a user record makes it
  eligible to run. In the first variant, whenever the query returns a user record the
  cached backend user is overwritten with it (last write wins, nothing is compared); a
  result without a user record changes nothing. The second variant never reads the
  query result, and the cached backend user stays as it is.
\<close>

theorem me_query_skip_and_sync:
  "meQuery_skip v backendUser = (backendUser = None)
   \<and> (getAccessToken env = Resolved (Some t) \<and> t \<noteq> [] \<and> loginMutation env t = Resolved (Some u) \<longrightarrow>
      meQuery_skip v None \<and> \<not> meQuery_skip v (fst (handleBackendLogin env True None)))
   \<and> meData_effect Part_000 (Some me) backendUser = Some me
   \<and> meData_effect Part_000 None backendUser = backendUser
   \<and> meData_effect Part_001 data backendUser = backendUser"
proof -
  have skip: "meQuery_skip v b = (b = None)" for b
    by (cases v) simp_all
  have "fst (handleBackendLogin env True None) = Some u"
    if "getAccessToken env = Resolved (Some t) \<and> t \<noteq> [] \<and> loginMutation env t = Resolved (Some u)"
    using that by (simp add: handleBackendLogin_def)
  then show ?thesis
    by (simp add: skip syncMeData_def)
qed

theorem me_query_skip_and_sync_witness:
  "meQuery_skip Part_000 None \<and> \<not> meQuery_skip Part_000 (fst (handleBackendLogin login_ok True None))
   \<and> meQuery_skip Part_001 None \<and> \<not> meQuery_skip Part_001 (fst (handleBackendLogin login_ok True None))
   \<and> meData_effect Part_000 (Some ann_with_picture) (Some ann) = Some ann_with_picture"
proof -
  have ok: "getAccessToken login_ok = Resolved (Some ''tok_abc'') \<and> ''tok_abc'' \<noteq> []
      \<and> loginMutation login_ok ''tok_abc'' = Resolved (Some ann)"
    by (simp add: login_ok_def)
  from me_query_skip_and_sync [of Part_000 _ login_ok "''tok_abc''" ann] ok
  have first: "meQuery_skip Part_000 None
      \<and> \<not> meQuery_skip Part_000 (fst (handleBackendLogin login_ok True None))"
    by blast
  from me_query_skip_and_sync [of Part_001 _ login_ok "''tok_abc''" ann] ok
  have second: "meQuery_skip Part_001 None
      \<and> \<not> meQuery_skip Part_001 (fst (handleBackendLogin login_ok True None))"
    by blast
  from me_query_skip_and_sync [of _ "Some ann" _ _ _ ann_with_picture]
  have sync: "meData_effect Part_000 (Some ann_with_picture) (Some ann) = Some ann_with_picture"
    by blast
  from first second sync show ?thesis
    by blast
qed

text \<open>
  The claim as written fails in the second variant: a query result that differs from
  the cached backend user does not replace it.
\<close>

theorem me_query_sync_counterexample:
  "ann_with_picture \<noteq> ann
   \<and> meData_effect Part_001 (Some ann_with_picture) (Some ann) = Some ann
   \<and> meData_effect Part_001 (Some ann_with_picture) (Some ann) \<noteq> Some ann_with_picture"
  by (simp add: ann_with_picture_def ann_def)

end
